theory Spec2Isabelle
  imports Complex_Main "HOL-Library.Char_ord" "HOL-Library.List_Lexorder" "HOL-Library.Word"
    "HOL-Library.AList"
begin

section \<open>Strings\<close>

text \<open>
  A Python \<open>str\<close> is modelled as a HOL \<open>string\<close>; a character stands for the code point
  of the same number, so the model covers the code points below 256. The character classes
  below are the ones of Python's \<open>str.lower\<close>, \<open>str.isspace\<close> and \<open>str.isdigit\<close> on that
  range. The order on strings (\<open>Char_ord\<close>, \<open>List_Lexorder\<close>) compares code points
  lexicographically, as Python's comparison of \<open>str\<close> does.
\<close>

definition lower_chr :: "char \<Rightarrow> char" where
  "lower_chr c =
     (let n = (of_char c :: nat)
      in if (65 \<le> n \<and> n \<le> 90) \<or> (192 \<le> n \<and> n \<le> 222 \<and> n \<noteq> 215)
         then char_of (n + 32) else c)"

definition lower :: "string \<Rightarrow> string" where
  "lower s = map lower_chr s"

definition isspace_chr :: "char \<Rightarrow> bool" where
  "isspace_chr c =
     (let n = (of_char c :: nat)
      in (9 \<le> n \<and> n \<le> 13) \<or> (28 \<le> n \<and> n \<le> 32) \<or> n = 133 \<or> n = 160)"

definition isdigit_chr :: "char \<Rightarrow> bool" where
  "isdigit_chr c =
     (let n = (of_char c :: nat)
      in (48 \<le> n \<and> n \<le> 57) \<or> n = 178 \<or> n = 179 \<or> n = 185)"

text \<open>\<open>s.isdigit()\<close>: every character is a digit and there is at least one character.\<close>

definition isdigit :: "string \<Rightarrow> bool" where
  "isdigit s = (s \<noteq> [] \<and> list_all isdigit_chr s)"

text \<open>\<open>s.strip()\<close>: leading and trailing whitespace removed.\<close>

definition strip :: "string \<Rightarrow> string" where
  "strip s = rev (dropWhile isspace_chr (rev (dropWhile isspace_chr s)))"

text \<open>\<open>p in s\<close> on strings: \<open>p\<close> occurs in \<open>s\<close> as a contiguous substring.\<close>

fun starts_with :: "string \<Rightarrow> string \<Rightarrow> bool" where
  "starts_with [] s = True"
| "starts_with (p # ps) [] = False"
| "starts_with (p # ps) (c # cs) = (p = c \<and> starts_with ps cs)"

fun contains :: "string \<Rightarrow> string \<Rightarrow> bool" where
  "contains p [] = (p = [])"
| "contains p (c # cs) = (starts_with p (c # cs) \<or> contains p cs)"

text \<open>
  \<open>re.split(r"[.\-_+]", s)\<close>, for any character class \<open>d\<close>: the pieces between the
  delimiters, empty pieces included. \<open>cur\<close> holds the current piece, reversed.
\<close>

fun re_split_from :: "(char \<Rightarrow> bool) \<Rightarrow> string \<Rightarrow> string \<Rightarrow> string list" where
  "re_split_from d cur [] = [rev cur]"
| "re_split_from d cur (c # cs) =
     (if d c then rev cur # re_split_from d [] cs else re_split_from d (c # cur) cs)"

definition re_split :: "(char \<Rightarrow> bool) \<Rightarrow> string \<Rightarrow> string list" where
  "re_split d s = re_split_from d [] s"

text \<open>\<open>s.split()\<close> with no argument: the maximal runs of non-whitespace characters.\<close>

fun split_ws_from :: "string \<Rightarrow> string \<Rightarrow> string list" where
  "split_ws_from cur [] = (if cur = [] then [] else [rev cur])"
| "split_ws_from cur (c # cs) =
     (if isspace_chr c
      then (if cur = [] then split_ws_from [] cs else rev cur # split_ws_from [] cs)
      else split_ws_from (c # cur) cs)"

definition split_ws :: "string \<Rightarrow> string list" where
  "split_ws s = split_ws_from [] s"

text \<open>
  \<open>template.format(u=username)\<close>. Every template of the program is a URL whose only braces
  are those of the placeholder \<open>{u}\<close> (or is the placeholder alone), and on such templates
  \<open>format\<close> replaces each placeholder by the user name and copies the rest.
\<close>

fun format_u :: "string \<Rightarrow> string \<Rightarrow> string" where
  "format_u [] u = []"
| "format_u (c # cs) u =
     (if starts_with ''{u}'' (c # cs) then u @ format_u (drop 3 (c # cs)) u
      else c # format_u cs u)"

section \<open>Candidate derivation from an email address\<close>

text \<open>\<open>email.split("@", 1)[0]\<close>: everything before the first \<open>@\<close>, or the whole string.\<close>

definition local_part :: "string \<Rightarrow> string" where
  "local_part email = takeWhile (\<lambda>c. c \<noteq> CHR ''@'') email"

definition is_delim :: "char \<Rightarrow> bool" where
  "is_delim c = (c = CHR ''.'' \<or> c = CHR ''-'' \<or> c = CHR ''_'' \<or> c = CHR ''+'')"

text \<open>The four variants built from the first and the last piece.\<close>

definition variants :: "string \<Rightarrow> string \<Rightarrow> string list" where
  "variants first last' =
     [first @ last', first @ ''_'' @ last', first @ ''.'' @ last', hd first # last']"

text \<open>The set \<open>cands\<close> of \<open>scan_email\<close>, before it is sorted and cut.\<close>

definition cands :: "string \<Rightarrow> string set" where
  "cands email =
     (let local = local_part email;
          parts = re_split is_delim local
      in if length parts \<ge> 2
         then (let first = hd parts; last' = last parts
               in if first \<noteq> [] \<and> last' \<noteq> []
                  then insert local (set (variants first last'))
                  else {local})
         else {local})"

text \<open>\<open>sorted(list(cands))[:8]\<close>.\<close>

definition derive_candidates :: "string \<Rightarrow> string list" where
  "derive_candidates email = take 8 (sorted_list_of_set (cands email))"

text \<open>The pieces of a split that are not empty.\<close>

definition nonempty_parts :: "string list \<Rightarrow> string list" where
  "nonempty_parts ps = filter (\<lambda>p. p \<noteq> []) ps"

section \<open>Values, responses and the transport\<close>

text \<open>
  The values that end up in the evidence mapping \<open>meta\<close>: strings, parsed JSON, and the
  tuple that \<open>check_stackoverflow\<close> returns in place of a mapping. A dictionary is an
  association list in insertion order.
\<close>

datatype pyval =
    PNone
  | PBool bool
  | PInt int
  | PFloat real
  | PStr string
  | PList "pyval list"
  | PDict "(string \<times> pyval) list"
  | PTuple "pyval list"

text \<open>Python's truth value of an object.\<close>

fun truthy :: "pyval \<Rightarrow> bool" where
  "truthy PNone = False"
| "truthy (PBool b) = b"
| "truthy (PInt i) = (i \<noteq> 0)"
| "truthy (PFloat x) = (x \<noteq> 0)"
| "truthy (PStr s) = (s \<noteq> [])"
| "truthy (PList xs) = (xs \<noteq> [])"
| "truthy (PDict kvs) = (kvs \<noteq> [])"
| "truthy (PTuple xs) = (xs \<noteq> [])"

text \<open>\<open>d.get(k)\<close> on a dictionary: the value, or \<open>None\<close>.\<close>

definition dict_get :: "(string \<times> pyval) list \<Rightarrow> string \<Rightarrow> pyval" where
  "dict_get kvs k = (case map_of kvs k of Some v \<Rightarrow> v | None \<Rightarrow> PNone)"

text \<open>
  Exceptions. The transport raises \<open>requests.RequestException\<close> for a network fault; every
  other exception (all of them subclasses of \<open>Exception\<close>) is \<open>OtherException\<close>. Both carry
  the text that \<open>str(e)\<close> gives.
\<close>

datatype exn = RequestException string | OtherException string

fun str_exn :: "exn \<Rightarrow> string" where
  "str_exn (RequestException m) = m"
| "str_exn (OtherException m) = m"

text \<open>
  What the checkers read of a response: \<open>r.status_code\<close>, \<open>r.text\<close>, the result of
  \<open>_title_from_html(r.content)\<close> (the parser \<open>lxml\<close> is a library; the function returns
  the stripped title, or the empty string when there is none or parsing fails) and the
  result of \<open>r.json()\<close>, \<open>None\<close> when it raises.
\<close>

record response =
  status_code :: int
  body :: string
  title :: string
  json :: "pyval option"

text \<open>
  The session is a transport: given the URLs requested so far and a URL, it answers with a
  response or raises.
\<close>

type_synonym session = "string list \<Rightarrow> string \<Rightarrow> exn + response"

text \<open>
  The state outside the functions: the global flag \<open>STOP\<close>, the pending interrupt, the
  requests sent and the pauses taken. The interrupt handler only ever sets the flag, so
  the program sees a signal exactly as the first read of \<open>STOP\<close> that yields \<open>True\<close>;
  \<open>sigint_in = Some n\<close> says that the signal arrives after \<open>n\<close> further reads of the flag
  and before the next one, \<open>None\<close> that no signal is pending.
\<close>

record world =
  STOP :: bool
  sigint_in :: "nat option"
  requests :: "string list"
  slept :: "real list"

definition sigint_handler :: "world \<Rightarrow> world" where
  "sigint_handler w = w\<lparr>STOP := True\<rparr>"

definition read_STOP :: "world \<Rightarrow> bool \<times> world" where
  "read_STOP w =
     (let w' = (case sigint_in w of
                  None \<Rightarrow> w
                | Some 0 \<Rightarrow> sigint_handler (w\<lparr>sigint_in := None\<rparr>)
                | Some (Suc n) \<Rightarrow> w\<lparr>sigint_in := Some n\<rparr>)
      in (STOP w', w'))"

definition session_get :: "session \<Rightarrow> string \<Rightarrow> world \<Rightarrow> (exn + response) \<times> world" where
  "session_get session url w = (session (requests w) url, w\<lparr>requests := requests w @ [url]\<rparr>)"

text \<open>
  A Python \<open>float\<close> as the program can receive one for the pause between requests: a real
  number (every double is one), an infinity or \<open>nan\<close>.
\<close>

datatype pyfloat = Finite real | PosInf | NegInf | NaN

text \<open>
  \<open>time.sleep\<close> (CPython 3.11 and later) turns its argument into a signed 64-bit count
  of nanoseconds. It multiplies by \<open>10^9\<close>, rounds the product to a double \<open>d\<close> and asks for
  \<open>-2^63 \<le> d < 2^63\<close>; for the exact product that is the interval below (the doubles
  next to \<open>2^63\<close> are \<open>2^63 - 1024\<close> and \<open>2^63 + 2048\<close>, and a tie goes to \<open>2^63\<close>).
\<close>

definition clock_range :: "real \<Rightarrow> bool" where
  "clock_range x = (- (2 ^ 63) - 1024 \<le> x * 10 ^ 9 \<and> x * 10 ^ 9 < 2 ^ 63 - 512)"

text \<open>
  \<open>time.sleep(delay)\<close>: \<open>ValueError\<close> for \<open>nan\<close>, \<open>OverflowError\<close> for an infinity and for
  a length outside the range of the clock, \<open>ValueError\<close> for a negative length, in this
  order; otherwise the pause is taken.
\<close>

definition time_sleep :: "pyfloat \<Rightarrow> world \<Rightarrow> (exn + unit) \<times> world" where
  "time_sleep delay w =
     (case delay of
        NaN \<Rightarrow> (Inl (OtherException ''Invalid value NaN (not a number)''), w)
      | PosInf \<Rightarrow> (Inl (OtherException ''timestamp too large to convert to C PyTime_t''), w)
      | NegInf \<Rightarrow> (Inl (OtherException ''timestamp too large to convert to C PyTime_t''), w)
      | Finite x \<Rightarrow>
          if \<not> clock_range x
          then (Inl (OtherException ''timestamp too large to convert to C PyTime_t''), w)
          else if x < 0
          then (Inl (OtherException ''sleep length must be non-negative''), w)
          else (Inr (), w\<lparr>slept := slept w @ [x]\<rparr>))"

text \<open>The lengths that \<open>time.sleep\<close> accepts.\<close>

definition sleepable :: "pyfloat \<Rightarrow> bool" where
  "sleepable delay = (case delay of Finite x \<Rightarrow> 0 \<le> x \<and> x * 10 ^ 9 < 2 ^ 63 - 512 | _ \<Rightarrow> False)"

section \<open>The checkers\<close>

type_synonym outcome = "bool \<times> pyval"

type_synonym checker = "session \<Rightarrow> string \<Rightarrow> world \<Rightarrow> (exn + outcome) \<times> world"

definition generic_negatives :: "string list" where
  "generic_negatives =
     [''not found'', ''page not found'', ''user not found'', ''no such user'',
      ''sorry, this page'']"

definition check_generic :: "session \<Rightarrow> string \<Rightarrow> string \<Rightarrow> world \<Rightarrow> (exn + outcome) \<times> world" where
  "check_generic session url_template username w =
     (let url = format_u url_template username
      in case session_get session url w of
           (Inl (RequestException m), w') \<Rightarrow> (Inr (False, PDict []), w')
         | (Inl (OtherException m), w') \<Rightarrow> (Inl (OtherException m), w')
         | (Inr r, w') \<Rightarrow>
             (if status_code r = 404 then (Inr (False, PDict []), w')
              else let txt = lower (body r)
                   in if list_ex (\<lambda>p. contains p txt) generic_negatives
                      then (Inr (False, PDict []), w')
                      else if title r \<noteq> []
                      then (Inr (True, PDict [(''title'', PStr (title r)),
                                              (''source'', PStr ''generic-title'')]), w')
                      else (Inr (status_code r = 200, PDict []), w')))"

text \<open>
  Most checkers have the shape \<open>try: r = session.get(url); \<dots> except Exception: return
  False, {}\<close>, where nothing but the request can raise.
\<close>

definition try_get :: "session \<Rightarrow> string \<Rightarrow> (response \<Rightarrow> outcome) \<Rightarrow> world \<Rightarrow> (exn + outcome) \<times> world" where
  "try_get session url decide w =
     (case session_get session url w of
        (Inl e, w') \<Rightarrow> (Inr (False, PDict []), w')
      | (Inr r, w') \<Rightarrow> (Inr (decide r), w'))"

definition check_github :: checker where
  "check_github session username w =
     (case session_get session (''https://api.github.com/users/'' @ username) w of
        (Inl e, w') \<Rightarrow> check_generic session ''https://github.com/{u}'' username w'
      | (Inr r, w') \<Rightarrow>
          (if status_code r = 200
           then (case json r of
                   Some (PDict j) \<Rightarrow>
                     (Inr (True, PDict [(''source'', PStr ''api.github.com''),
                                        (''name'', dict_get j ''name''),
                                        (''bio'', dict_get j ''bio'')]), w')
                 | _ \<Rightarrow> check_generic session ''https://github.com/{u}'' username w')
           else if status_code r = 404 then (Inr (False, PDict []), w')
           else check_generic session ''https://github.com/{u}'' username w'))"

text \<open>
  The test \<open>isinstance(j, dict) and j.get("data") and j["data"].get("name")\<close> on the result
  of \<open>r.json()\<close>: \<open>Some data\<close> when it holds. A true \<open>data\<close> that is no dictionary has no
  \<open>get\<close>; the exception is swallowed like a failure of \<open>r.json()\<close>.
\<close>

definition reddit_about_data :: "pyval option \<Rightarrow> pyval option" where
  "reddit_about_data j =
     (case j of
        Some (PDict kvs) \<Rightarrow>
          (case dict_get kvs ''data'' of
             PDict d \<Rightarrow> if truthy (PDict d) \<and> truthy (dict_get d ''name'')
                        then Some (PDict d) else None
           | _ \<Rightarrow> None)
      | _ \<Rightarrow> None)"

definition reddit_profile :: "response \<Rightarrow> outcome" where
  "reddit_profile r2 =
     (if status_code r2 = 404 then (False, PDict [])
      else let txt = lower (body r2)
           in if contains ''sorry, nobody on reddit goes by that name'' txt
                 \<or> contains ''account suspended'' txt
                 \<or> contains ''this account may have been banned'' txt
              then (False, PDict [])
              else if title r2 \<noteq> [] \<and> \<not> contains ''reddit'' (lower (title r2))
              then (True, PDict [(''source'', PStr ''reddit-html-title''),
                                 (''title'', PStr (title r2))])
              else (True, PDict []))"

definition check_reddit :: checker where
  "check_reddit session username w =
     (let about = ''https://www.reddit.com/user/'' @ username @ ''/about.json'';
          profile = ''https://www.reddit.com/user/'' @ username @ ''/''
      in case session_get session about w of
           (Inl e, w') \<Rightarrow> try_get session profile reddit_profile w'
         | (Inr r, w') \<Rightarrow>
             (case (if status_code r = 200 then reddit_about_data (json r) else None) of
                Some d \<Rightarrow>
                  (Inr (True, PDict [(''source'', PStr ''reddit-about-json''), (''data'', d)]), w')
              | None \<Rightarrow>
                  if status_code r \<in> {403, 404, 410} then (Inr (False, PDict []), w')
                  else try_get session profile reddit_profile w'))"

text \<open>
  The last \<open>return\<close> of \<open>check_stackoverflow\<close> reads
  \<open>return True, {\<dots>} if title else (True, {})\<close>: the conditional binds tighter than the
  comma, so without a title the second component is the tuple \<open>(True, {})\<close>.
\<close>

definition stackoverflow_page :: "response \<Rightarrow> outcome" where
  "stackoverflow_page r =
     (if status_code r = 404 then (False, PDict [])
      else let txt = lower (body r)
           in if list_ex (\<lambda>p. contains p txt)
                   [''user deleted'', ''page not found'', ''profile not found'']
              then (False, PDict [])
              else (True, if title r \<noteq> []
                          then PDict [(''source'', PStr ''stackoverflow-html''),
                                      (''title'', PStr (title r))]
                          else PTuple [PBool True, PDict []]))"

definition check_stackoverflow :: checker where
  "check_stackoverflow session username w =
     (if \<not> isdigit username then (Inr (False, PDict []), w)
      else try_get session (''https://stackoverflow.com/users/'' @ username) stackoverflow_page w)"

definition hackernews_page :: "response \<Rightarrow> outcome" where
  "hackernews_page r =
     (if status_code r = 404 then (False, PDict [])
      else let txt = lower (body r)
           in if contains ''no such user.'' txt \<or> contains ''no such user'' txt
              then (False, PDict [])
              else (True, PDict [(''source'', PStr ''hackernews-html'')]))"

definition check_hackernews :: checker where
  "check_hackernews session username w =
     try_get session (''https://news.ycombinator.com/user?id='' @ username) hackernews_page w"

definition gitlab_page :: "response \<Rightarrow> outcome" where
  "gitlab_page r =
     (if status_code r = 404 then (False, PDict [])
      else let txt = lower (body r)
           in if list_ex (\<lambda>neg. contains neg txt) [''page not found'', ''just a moment'', ''404'']
              then (False, PDict [])
              else if contains ''profile-header'' txt \<or> contains ''user-show'' txt
                      \<or> contains ''projects'' txt \<or> contains ''activity'' txt
              then (True, PDict [(''source'', PStr ''gitlab-html-marker''),
                                 (''title'', PStr (title r))])
              else (False, PDict []))"

definition check_gitlab :: checker where
  "check_gitlab session username w =
     try_get session (''https://gitlab.com/'' @ username) gitlab_page w"

text \<open>
  The negative phrases of \<open>check_x\<close> include one written with the apostrophe U+2019, which
  lies outside the range of the modelled strings and so cannot occur in a modelled body;
  the three other phrases are listed.
\<close>

definition x_page :: "response \<Rightarrow> outcome" where
  \<open>x_page r =
     (if status_code r = 404 then (False, PDict [])
      else let txt = lower (body r)
           in if list_ex (\<lambda>neg. contains neg txt)
                   [''account suspended'', ''this account doesn't exist'', ''user not found'']
              then (False, PDict [])
              else if contains ''property="og:description"'' (body r)
                      \<or> contains ''name="twitter:description"'' (body r)
              then (True, PDict [(''source'', PStr ''x-og'')])
              else if contains ''followers'' txt \<or> contains ''following'' txt
                      \<or> contains ''tweets'' txt
              then (True, PDict [(''source'', PStr ''x-text-hint'')])
              else (False, PDict []))\<close>

definition check_x :: checker where
  "check_x session username w = try_get session (''https://x.com/'' @ username) x_page w"

definition youtube_page :: "response \<Rightarrow> outcome" where
  "youtube_page r =
     (if status_code r = 404 then (False, PDict [])
      else let txt = lower (body r)
           in if contains ''channel does not exist'' txt \<or> contains ''no longer available'' txt
              then (False, PDict [])
              else if contains ''channelid'' (lower txt)
                      \<or> contains ''subscribercounttext'' (lower txt)
              then (True, PDict [(''source'', PStr ''youtube-html'')])
              else if title r \<noteq> [] \<and> \<not> contains ''youtube'' (lower (title r))
              then (True, PDict [(''source'', PStr ''youtube-title''),
                                 (''title'', PStr (title r))])
              else (False, PDict []))"

definition check_youtube :: checker where
  "check_youtube session username w =
     try_get session (''https://www.youtube.com/@'' @ username) youtube_page w"

definition instagram_page :: "response \<Rightarrow> outcome" where
  \<open>instagram_page r =
     (if status_code r = 404 then (False, PDict [])
      else let txt = lower (body r)
           in if contains ''sorry, this page isn't available'' txt
                 \<or> contains ''page isn't available'' txt
              then (False, PDict [])
              else if contains ''"is_private":'' txt \<or> contains ''"graphql"'' txt
                      \<or> contains ''window._sharedData'' txt
              then (True, PDict [(''source'', PStr ''instagram-embedded-json''),
                                 (''title'', PStr (title r))])
              else if title r \<noteq> [] \<and> \<not> contains ''instagram'' (lower (title r))
              then (True, PDict [(''source'', PStr ''instagram-title''),
                                 (''title'', PStr (title r))])
              else (False, PDict []))\<close>

definition check_instagram :: checker where
  "check_instagram session username w =
     try_get session (''https://www.instagram.com/'' @ username @ ''/'') instagram_page w"

definition tiktok_page :: "response \<Rightarrow> outcome" where
  \<open>tiktok_page r =
     (if status_code r = 404 then (False, PDict [])
      else let txt = lower (body r)
           in if contains ''page not found'' txt \<or> contains ''user not found'' txt
                 \<or> contains ''couldn't find this account'' txt
              then (False, PDict [])
              else if contains ''window.__INIT_PROPS'' txt \<or> contains ''"userInfo"'' txt
              then (True, PDict [(''source'', PStr ''tiktok-html-json'')])
              else if title r \<noteq> []
              then (True, PDict [(''title'', PStr (title r))])
              else (False, PDict []))\<close>

definition check_tiktok :: checker where
  "check_tiktok session username w =
     try_get session (''https://www.tiktok.com/@'' @ username) tiktok_page w"

definition steam_html :: "response \<Rightarrow> outcome" where
  "steam_html r2 =
     (if status_code r2 = 200
      then (let txt = lower (body r2)
            in if contains ''error'' txt \<and> contains ''profile'' txt
               then (False, PDict [])
               else (True, PDict [(''source'', PStr ''steam-html'')]))
      else (False, PDict []))"

definition check_steam :: checker where
  "check_steam session username w =
     (case session_get session (''https://steamcommunity.com/id/'' @ username @ ''/?xml=1'') w of
        (Inl e, w') \<Rightarrow> (Inr (False, PDict []), w')
      | (Inr r, w') \<Rightarrow>
          if status_code r = 200 \<and> contains ''<error>'' (body r) then (Inr (False, PDict []), w')
          else if status_code r = 200 then (Inr (True, PDict [(''source'', PStr ''steam-xml'')]), w')
          else try_get session (''https://steamcommunity.com/id/'' @ username) steam_html w')"

definition linkedin_page :: "response \<Rightarrow> outcome" where
  \<open>linkedin_page r =
     (if status_code r = 404 then (False, PDict [])
      else let txt = lower (body r)
           in if contains ''profile not found'' txt \<or> contains ''profile not available'' txt
              then (False, PDict [])
              else if contains ''sign in'' txt \<and> contains ''linkedin'' (lower (title r))
              then (False, PDict [])
              else if title r \<noteq> [] \<and> \<not> contains ''linkedin'' (lower (title r))
                      \<and> length (split_ws (title r)) \<ge> 2
              then (True, PDict [(''source'', PStr ''linkedin-title''),
                                 (''title'', PStr (title r))])
              else if contains ''property="og:title"'' (body r)
                      \<or> contains ''name="og:title"'' (body r)
              then (True, PDict [(''source'', PStr ''linkedin-og''),
                                 (''title'', PStr (title r))])
              else (False, PDict []))\<close>

definition check_linkedin :: checker where
  "check_linkedin session username w =
     try_get session (''https://www.linkedin.com/in/'' @ username @ ''/'') linkedin_page w"

section \<open>The platform map\<close>

definition GENERIC_TEMPLATES :: "(string \<times> string) list" where
  "GENERIC_TEMPLATES =
     [(''github'', ''https://github.com/{u}''),
      (''gitlab'', ''https://gitlab.com/{u}''),
      (''reddit'', ''https://www.reddit.com/user/{u}/''),
      (''stack_overflow'', ''https://stackoverflow.com/users/story/{u}''),
      (''tiktok'', ''https://www.tiktok.com/@'' @ ''{u}''),
      (''youtube'', ''https://www.youtube.com/@'' @ ''{u}''),
      (''medium'', ''https://medium.com/@'' @ ''{u}''),
      (''devto'', ''https://dev.to/{u}''),
      (''pinterest'', ''https://www.pinterest.com/{u}/''),
      (''soundcloud'', ''https://soundcloud.com/{u}''),
      (''vimeo'', ''https://vimeo.com/{u}''),
      (''steam'', ''https://steamcommunity.com/id/{u}''),
      (''keybase'', ''https://keybase.io/{u}''),
      (''instagram'', ''https://www.instagram.com/{u}/''),
      (''facebook'', ''https://www.facebook.com/{u}''),
      (''x'', ''https://x.com/{u}''),
      (''kaggle'', ''https://www.kaggle.com/{u}''),
      (''hackernews'', ''https://news.ycombinator.com/user?id={u}''),
      (''linkedin'', ''https://www.linkedin.com/in/{u}/'')]"

text \<open>\<open>GENERIC_TEMPLATES.get(platform, "{u}")\<close>.\<close>

definition template_of :: "string \<Rightarrow> string" where
  "template_of platform =
     (case map_of GENERIC_TEMPLATES platform of Some t \<Rightarrow> t | None \<Rightarrow> ''{u}'')"

definition PLATFORM_CHECKERS :: "(string \<times> checker) list" where
  "PLATFORM_CHECKERS =
     [(''github'', check_github),
      (''gitlab'', check_gitlab),
      (''reddit'', check_reddit),
      (''stack_overflow'', check_stackoverflow),
      (''tiktok'', check_tiktok),
      (''youtube'', check_youtube),
      (''medium'', \<lambda>s u. check_generic s (''https://medium.com/@'' @ ''{u}'') u),
      (''devto'', \<lambda>s u. check_generic s ''https://dev.to/{u}'' u),
      (''pinterest'', \<lambda>s u. check_generic s ''https://www.pinterest.com/{u}/'' u),
      (''soundcloud'', \<lambda>s u. check_generic s ''https://soundcloud.com/{u}'' u),
      (''vimeo'', \<lambda>s u. check_generic s ''https://vimeo.com/{u}'' u),
      (''steam'', check_steam),
      (''keybase'', \<lambda>s u. check_generic s ''https://keybase.io/{u}'' u),
      (''instagram'', check_instagram),
      (''facebook'', \<lambda>s u. check_generic s ''https://www.facebook.com/{u}'' u),
      (''x'', check_x),
      (''kaggle'', \<lambda>s u. check_generic s ''https://www.kaggle.com/{u}'' u),
      (''hackernews'', check_hackernews),
      (''linkedin'', check_linkedin)]"

section \<open>The worker and the scan\<close>

text \<open>
  A result record. \<open>exists\<close> is \<open>Some True\<close>, \<open>Some False\<close> or \<open>None\<close>; \<open>skipped\<close> is
  \<open>True\<close> for the record that carries the key \<open>"skipped"\<close> and \<open>False\<close> for the records
  without that key. Console output is left out.
\<close>

record hit =
  platform :: string
  url :: string
  exists :: "bool option"
  meta :: pyval
  skipped :: bool

text \<open>
  The probe that \<open>worker_check\<close> runs inside its \<open>try\<close>: the checker registered for the
  platform, or the generic checker on the platform's template.
\<close>

definition probe :: "session \<Rightarrow> string \<Rightarrow> string \<Rightarrow> world \<Rightarrow> (exn + outcome) \<times> world" where
  "probe session platform' username w =
     (case map_of PLATFORM_CHECKERS platform' of
        Some checker \<Rightarrow> checker session username w
      | None \<Rightarrow> check_generic session (template_of platform') username w)"

definition worker_check :: "session \<Rightarrow> string \<Rightarrow> string \<Rightarrow> pyfloat \<Rightarrow> world \<Rightarrow> (exn + hit) \<times> world" where
  "worker_check session platform' username delay w =
     (let url' = format_u (template_of platform') username;
          (stop, w0) = read_STOP w
      in if stop
         then (Inr \<lparr>platform = platform', url = url', exists = None, meta = PDict [],
                    skipped = True\<rparr>, w0)
         else
           let (res, w1) = probe session platform' username w0;
               out = (case res of
                        Inr (exists', meta') \<Rightarrow>
                          \<lparr>platform = platform', url = url', exists = Some exists',
                           meta = meta', skipped = False\<rparr>
                      | Inl e \<Rightarrow>
                          \<lparr>platform = platform', url = url', exists = Some False,
                           meta = PDict [(''error'', PStr (str_exn e))], skipped = False\<rparr>)
           in case time_sleep delay w1 of
                (Inl e, w2) \<Rightarrow> (Inl e, w2)
              | (Inr u, w2) \<Rightarrow> (Inr out, w2))"

text \<open>The loop of \<open>scan_username\<close>; \<open>results\<close> is the list built so far.\<close>

fun scan_loop :: "session \<Rightarrow> string \<Rightarrow> pyfloat \<Rightarrow> hit list \<Rightarrow> string list \<Rightarrow> world \<Rightarrow> (exn + hit list) \<times> world" where
  "scan_loop session username delay results [] w = (Inr results, w)"
| "scan_loop session username delay results (p # ps) w =
     (case worker_check session p username delay w of
        (Inl e, w1) \<Rightarrow> (Inl e, w1)
      | (Inr out, w1) \<Rightarrow>
          (let results' = results @ [out];
               (stop, w2) = read_STOP w1
           in if stop then (Inr results', w2)
              else scan_loop session username delay results' ps w2))"

definition scan_username :: "session \<Rightarrow> string \<Rightarrow> string list \<Rightarrow> pyfloat \<Rightarrow> world \<Rightarrow> (exn + hit list) \<times> world" where
  "scan_username session username platforms delay w =
     scan_loop session username delay [] platforms w"

section \<open>The email scan\<close>

text \<open>\<open>s.encode()\<close>: the UTF-8 bytes of a string of code points below 256.\<close>

definition encode_chr :: "char \<Rightarrow> 8 word list" where
  "encode_chr c =
     (let n = (of_char c :: nat)
      in if n < 128 then [of_nat n]
         else [of_nat (192 + n div 64), of_nat (128 + n mod 64)])"

definition encode :: "string \<Rightarrow> 8 word list" where
  "encode s = concat (map encode_chr s)"

text \<open>
  \<open>hashlib.md5(email.strip().lower().encode()).hexdigest()\<close>. The digest function belongs
  to the standard library; it is the parameter \<open>md5_hexdigest\<close>, from bytes to the
  hexadecimal text.
\<close>

definition gravatar_hash :: "(8 word list \<Rightarrow> string) \<Rightarrow> string \<Rightarrow> string" where
  "gravatar_hash md5_hexdigest email = md5_hexdigest (encode (lower (strip email)))"

text \<open>
  The \<open>try\<close> block of \<open>scan_email\<close>: the two addresses are stored before the request, the
  profile only after a response with status 200 whose JSON parses; any exception ends
  the block and keeps what was stored.
\<close>

definition gravatar_lookup :: "(8 word list \<Rightarrow> string) \<Rightarrow> session \<Rightarrow> string \<Rightarrow> world \<Rightarrow> (string \<times> pyval) list \<times> world" where
  "gravatar_lookup md5_hexdigest session email w =
     (let h = gravatar_hash md5_hexdigest email;
          jurl = ''https://www.gravatar.com/'' @ h @ ''.json'';
          img = ''https://www.gravatar.com/avatar/'' @ h @ ''?d=404'';
          g = [(''gravatar_json_url'', PStr jurl), (''gravatar_img_url'', PStr img)]
      in case session_get session jurl w of
           (Inl e, w') \<Rightarrow> (g, w')
         | (Inr r, w') \<Rightarrow>
             (if status_code r = 200
              then (case json r of
                      Some j \<Rightarrow> (AList.update ''profile'' j g, w')
                    | None \<Rightarrow> (g, w'))
              else (g, w')))"

record email_scan =
  email :: string
  gravatar :: "(string \<times> pyval) list"
  platform_hits :: "(string \<times> hit list) list"
  username_candidates :: "string list"

text \<open>The loop over the candidates; \<open>hits\<close> is the mapping \<open>platform_hits\<close> built so far.\<close>

fun candidates_loop :: "session \<Rightarrow> string list \<Rightarrow> pyfloat \<Rightarrow> (string \<times> hit list) list \<Rightarrow> string list \<Rightarrow> world \<Rightarrow> (exn + (string \<times> hit list) list) \<times> world" where
  "candidates_loop session platforms delay hits [] w = (Inr hits, w)"
| "candidates_loop session platforms delay hits (u # us) w =
     (case scan_username session u platforms delay w of
        (Inl e, w1) \<Rightarrow> (Inl e, w1)
      | (Inr rs, w1) \<Rightarrow>
          (let hits' = AList.update u rs hits;
               (stop, w2) = read_STOP w1
           in if stop then (Inr hits', w2)
              else candidates_loop session platforms delay hits' us w2))"

definition scan_email :: "(8 word list \<Rightarrow> string) \<Rightarrow> session \<Rightarrow> string \<Rightarrow> string list \<Rightarrow> pyfloat \<Rightarrow> bool \<Rightarrow> world \<Rightarrow> (exn + email_scan) \<times> world" where
  "scan_email md5_hexdigest session email' platforms delay also_derive w =
     (let (g, w1) = gravatar_lookup md5_hexdigest session email' w;
          candidates = (if also_derive then derive_candidates email' else [])
      in case candidates_loop session platforms delay [] candidates w1 of
           (Inl e, w2) \<Rightarrow> (Inl e, w2)
         | (Inr hits, w2) \<Rightarrow>
             (Inr \<lparr>email = email', gravatar = g, platform_hits = hits,
                   username_candidates = candidates\<rparr>, w2))"

section \<open>Notions used in the statements\<close>





text \<open>A transport with a fixed answer for a few addresses, and a world at rest.\<close>

definition page :: "int \<Rightarrow> string \<Rightarrow> string \<Rightarrow> response" where
  "page st b t = \<lparr>status_code = st, body = b, title = t, json = None\<rparr>"

definition demo_session :: session where
  "demo_session history address =
     (if address = ''https://dev.to/gone'' then Inr (page 404 ''<title>Gone</title>'' ''Gone'')
      else if address = ''https://dev.to/ghost''
        then Inr (page 200 ''<title>Oops</title> User Not Found'' ''Oops'')
      else if address = ''https://dev.to/ann'' then Inr (page 200 ''<title>Ann</title>'' ''Ann'')
      else if address = ''https://dev.to/raw'' then Inr (page 200 ''ok'' [])
      else if address = ''https://dev.to/teapot'' then Inr (page 418 [] [])
      else if address = ''https://gitlab.com/ann''
        then Inr (page 200 ''<title>Ann</title> Projects Activity'' ''Ann'')
      else if address = ''https://medium.com/@ann'' then Inl (OtherException ''boom'')
      else Inl (RequestException ''connection refused''))"

definition idle :: world where
  "idle = \<lparr>STOP = False, sigint_in = None, requests = [], slept = []\<rparr>"

text \<open>A stand-in for the digest in examples: it reads the bytes back as characters.\<close>

definition demo_digest :: "8 word list \<Rightarrow> string" where
  "demo_digest bs = map (\<lambda>b. char_of (unat b)) bs"

section \<open>Auxiliary facts\<close>

lemma finite_cands: "finite (cands addr)"
  by (simp add: cands_def Let_def)

lemma card_variants: "card (insert x (set (variants f l))) \<le> 5"
proof -
  have "card (set (variants f l)) \<le> length (variants f l)" by (rule card_length)
  also have "\<dots> = 4" by (simp add: variants_def)
  finally show ?thesis by (simp add: card_insert_if)
qed

lemma card_cands: "card (cands addr) \<le> 5"
  unfolding cands_def Let_def using card_variants by (simp del: set_simps)

lemma length_sorted_cands: "length (sorted_list_of_set (cands addr)) \<le> 5"
  using card_cands by simp

lemma derive_candidates_untruncated:
  "derive_candidates addr = sorted_list_of_set (cands addr)"
  using length_sorted_cands [of addr] by (simp add: derive_candidates_def)

lemma set_derive_candidates: "set (derive_candidates addr) = cands addr"
  by (simp add: derive_candidates_untruncated finite_cands)

lemma re_split_from_length:
  "length (re_split_from d cur s) = Suc (length (filter d s))"
  by (induction s arbitrary: cur) simp_all

lemma re_split_from_no_delim:
  "list_all (\<lambda>c. \<not> d c) cur \<Longrightarrow> list_all (list_all (\<lambda>c. \<not> d c)) (re_split_from d cur s)"
  by (induction s arbitrary: cur) simp_all

lemma starts_with_iff: "starts_with p s \<longleftrightarrow> (\<exists>b. s = p @ b)"
  by (induction p s rule: starts_with.induct) auto

lemma contains_iff: "contains p s \<longleftrightarrow> (\<exists>a b. s = a @ p @ b)"
proof (induction s)
  case Nil
  show ?case by auto
next
  case (Cons c cs)
  show ?case
  proof
    assume "contains p (c # cs)"
    then consider "starts_with p (c # cs)" | "contains p cs" by auto
    then show "\<exists>a b. c # cs = a @ p @ b"
    proof cases
      case 1
      then obtain b where "c # cs = p @ b" by (auto simp: starts_with_iff)
      then have "c # cs = [] @ p @ b" by simp
      then show ?thesis by blast
    next
      case 2
      then obtain a b where "cs = a @ p @ b" using Cons.IH by blast
      then have "c # cs = (c # a) @ p @ b" by simp
      then show ?thesis by blast
    qed
  next
    assume "\<exists>a b. c # cs = a @ p @ b"
    then obtain a b where ab: "c # cs = a @ p @ b" by blast
    show "contains p (c # cs)"
    proof (cases a)
      case Nil
      with ab have "starts_with p (c # cs)" by (auto simp: starts_with_iff)
      then show ?thesis by simp
    next
      case (Cons x a')
      with ab have "cs = a' @ p @ b" by simp
      then have "contains p cs" using Cons.IH by blast
      then show ?thesis by simp
    qed
  qed
qed
















lemma time_sleep_accepts:
  "sleepable d \<Longrightarrow> \<exists>x. time_sleep d w = (Inr (), w\<lparr>slept := slept w @ [x]\<rparr>)"
proof (cases d)
  case (Finite x)
  assume "sleepable d"
  then have x: "0 \<le> x" "x * 10 ^ 9 < 2 ^ 63 - 512" using Finite by (simp_all add: sleepable_def)
  have "0 \<le> x * 10 ^ 9" using x(1) by simp
  then have "clock_range x" using x(2) by (simp add: clock_range_def)
  then show ?thesis using Finite x(1) by (auto simp add: time_sleep_def)
qed (simp_all add: sleepable_def)

lemma time_sleep_returns_iff: "fst (time_sleep d w) = Inr () \<longleftrightarrow> sleepable d"
proof
  assume "sleepable d"
  then show "fst (time_sleep d w) = Inr ()" using time_sleep_accepts [of d w] by auto
next
  assume "fst (time_sleep d w) = Inr ()"
  then show "sleepable d"
    by (cases d) (auto simp: time_sleep_def sleepable_def clock_range_def split: if_splits)
qed







lemma strip_decomposition:
  "\<exists>a b. s = a @ strip s @ b \<and> list_all isspace_chr a \<and> list_all isspace_chr b
     \<and> (strip s = [] \<or> (\<not> isspace_chr (hd (strip s)) \<and> \<not> isspace_chr (last (strip s))))"
proof -
  define a where "a = takeWhile isspace_chr s"
  define t where "t = dropWhile isspace_chr s"
  define b where "b = rev (takeWhile isspace_chr (rev t))"
  have st: "strip s = rev (dropWhile isspace_chr (rev t))" by (simp add: strip_def t_def)
  have "t = rev (takeWhile isspace_chr (rev t) @ dropWhile isspace_chr (rev t))"
    by (simp only: takeWhile_dropWhile_id rev_rev_ident)
  then have "t = rev (dropWhile isspace_chr (rev t)) @ rev (takeWhile isspace_chr (rev t))"
    by (simp only: rev_append)
  then have tb: "t = strip s @ b" by (simp only: st b_def)
  have sa: "s = a @ t" by (simp add: a_def t_def)
  have wa: "list_all isspace_chr a"
    by (simp add: a_def list_all_iff) (meson set_takeWhileD)
  have wb: "list_all isspace_chr b"
    by (simp add: b_def list_all_iff) (meson set_takeWhileD)
  have ends: "\<not> isspace_chr (hd (strip s)) \<and> \<not> isspace_chr (last (strip s))" if ne: "strip s \<noteq> []"
  proof
    from ne have tne: "t \<noteq> []" using tb by auto
    have "hd (strip s) = hd t" using tb ne by (metis hd_append2)
    moreover have "\<not> isspace_chr (hd t)" using tne unfolding t_def by (rule hd_dropWhile)
    ultimately show "\<not> isspace_chr (hd (strip s))" by simp
    from ne have dne: "dropWhile isspace_chr (rev t) \<noteq> []" by (simp add: st)
    then have "\<not> isspace_chr (hd (dropWhile isspace_chr (rev t)))" by (rule hd_dropWhile)
    moreover have "last (strip s) = hd (dropWhile isspace_chr (rev t))"
      using dne by (simp add: st last_rev)
    ultimately show "\<not> isspace_chr (last (strip s))" by simp
  qed
  have "s = a @ strip s @ b" using sa tb by simp
  then show ?thesis using wa wb ends by blast
qed



section \<open>The generic probe\<close>

text \<open>
  Claim C1. The generic probe classifies as follows. A response with status 404 is Absent.
  Otherwise, a lowercased body in which one of the fixed negative phrases occurs (among them
  \<open>user not found\<close>) is Absent. Otherwise a non-empty title is Present, and the evidence
  holds the title and the source \<open>generic-title\<close>. Otherwise the result is Present exactly
  when the status is 200. A failure of the transport (\<open>RequestException\<close>) is Absent, a
  returned value and no exception. The response is the one the transport gives for the
  template with the identifier filled in.
\<close>

theorem check_generic_classification:
  "(session (requests w) (format_u t u) = Inl (RequestException m) \<longrightarrow>
      fst (check_generic session t u w) = Inr (False, PDict [])) \<and>
   (session (requests w) (format_u t u) = Inr r \<longrightarrow>
      (status_code r = 404 \<longrightarrow> fst (check_generic session t u w) = Inr (False, PDict [])) \<and>
      (status_code r \<noteq> 404 \<and> (\<exists>p\<in>set generic_negatives. \<exists>a b. lower (body r) = a @ p @ b) \<longrightarrow>
         fst (check_generic session t u w) = Inr (False, PDict [])) \<and>
      (status_code r \<noteq> 404 \<and> \<not> (\<exists>p\<in>set generic_negatives. \<exists>a b. lower (body r) = a @ p @ b)
         \<and> title r \<noteq> [] \<longrightarrow>
         fst (check_generic session t u w) =
           Inr (True, PDict [(''title'', PStr (title r)), (''source'', PStr ''generic-title'')])) \<and>
      (status_code r \<noteq> 404 \<and> \<not> (\<exists>p\<in>set generic_negatives. \<exists>a b. lower (body r) = a @ p @ b)
         \<and> title r = [] \<longrightarrow>
         fst (check_generic session t u w) = Inr (status_code r = 200, PDict []))) \<and>
   ''user not found'' \<in> set generic_negatives"
proof -
  have n: "list_ex (\<lambda>p. contains p x) generic_negatives
           = (\<exists>p\<in>set generic_negatives. \<exists>a b. x = a @ p @ b)" for x
    by (simp add: list_ex_iff contains_iff)
  have u: "''user not found'' \<in> set generic_negatives" by (simp add: generic_negatives_def)
  show ?thesis using u
    by (simp add: check_generic_def session_get_def Let_def n)
qed

theorem check_generic_classification_witness:
  "fst (check_generic demo_session ''https://dev.to/{u}'' ''gone'' idle) = Inr (False, PDict []) \<and>
   fst (check_generic demo_session ''https://dev.to/{u}'' ''ghost'' idle) = Inr (False, PDict []) \<and>
   fst (check_generic demo_session ''https://dev.to/{u}'' ''ann'' idle) =
     Inr (True, PDict [(''title'', PStr ''Ann''), (''source'', PStr ''generic-title'')]) \<and>
   fst (check_generic demo_session ''https://dev.to/{u}'' ''raw'' idle) = Inr (True, PDict []) \<and>
   fst (check_generic demo_session ''https://dev.to/{u}'' ''teapot'' idle) = Inr (False, PDict []) \<and>
   fst (check_generic demo_session ''https://dev.to/{u}'' ''nobody'' idle) = Inr (False, PDict [])"
proof -
  note T = check_generic_classification [where session = demo_session and w = idle and t = "''https://dev.to/{u}''",
      unfolded contains_iff [symmetric]]
  have s1: "demo_session (requests idle) (format_u ''https://dev.to/{u}'' ''gone'')
      = Inr (page 404 ''<title>Gone</title>'' ''Gone'')" by code_simp
  have s2: "demo_session (requests idle) (format_u ''https://dev.to/{u}'' ''ghost'')
      = Inr (page 200 ''<title>Oops</title> User Not Found'' ''Oops'')" by code_simp
  have s3: "demo_session (requests idle) (format_u ''https://dev.to/{u}'' ''ann'')
      = Inr (page 200 ''<title>Ann</title>'' ''Ann'')" by code_simp
  have s4: "demo_session (requests idle) (format_u ''https://dev.to/{u}'' ''raw'')
      = Inr (page 200 ''ok'' [])" by code_simp
  have s5: "demo_session (requests idle) (format_u ''https://dev.to/{u}'' ''teapot'')
      = Inr (page 418 [] [])" by code_simp
  have s6: "demo_session (requests idle) (format_u ''https://dev.to/{u}'' ''nobody'')
      = Inl (RequestException ''connection refused'')" by code_simp
  have n2: "\<exists>p\<in>set generic_negatives.
      contains p (lower (body (page 200 ''<title>Oops</title> User Not Found'' ''Oops'')))"
    by code_simp
  have n3: "\<not> (\<exists>p\<in>set generic_negatives.
      contains p (lower (body (page 200 ''<title>Ann</title>'' ''Ann''))))"
    by code_simp
  have n4: "\<not> (\<exists>p\<in>set generic_negatives. contains p (lower (body (page 200 ''ok'' []))))"
    by code_simp
  have n5: "\<not> (\<exists>p\<in>set generic_negatives. contains p (lower (body (page 418 [] []))))"
    by code_simp
  have r1: "fst (check_generic demo_session ''https://dev.to/{u}'' ''gone'' idle) = Inr (False, PDict [])"
    using T [of "''gone''" _ "page 404 ''<title>Gone</title>'' ''Gone''"] s1
    by (simp add: page_def)
  have r2: "fst (check_generic demo_session ''https://dev.to/{u}'' ''ghost'' idle) = Inr (False, PDict [])"
    using T [of "''ghost''" _ "page 200 ''<title>Oops</title> User Not Found'' ''Oops''"] s2 n2
    by (simp add: page_def)
  have r3: "fst (check_generic demo_session ''https://dev.to/{u}'' ''ann'' idle) =
     Inr (True, PDict [(''title'', PStr ''Ann''), (''source'', PStr ''generic-title'')])"
    using T [of "''ann''" _ "page 200 ''<title>Ann</title>'' ''Ann''"] s3 n3
    by (simp add: page_def)
  have r4: "fst (check_generic demo_session ''https://dev.to/{u}'' ''raw'' idle) = Inr (True, PDict [])"
    using T [of "''raw''" _ "page 200 ''ok'' []"] s4 n4
    by (simp add: page_def)
  have r5: "fst (check_generic demo_session ''https://dev.to/{u}'' ''teapot'' idle) = Inr (False, PDict [])"
    using T [of "''teapot''" _ "page 418 [] []"] s5 n5
    by (simp add: page_def)
  have r6: "fst (check_generic demo_session ''https://dev.to/{u}'' ''nobody'' idle) = Inr (False, PDict [])"
    using T [of "''nobody''" "''connection refused''"] s6
    by simp
  show ?thesis using r1 r2 r3 r4 r5 r6 by simp
qed

section \<open>The candidates derived from an email address\<close>

text \<open>
  Claim C2, as stated, has the four variants whenever the split yields at least two
  non-empty pieces. The program takes the first and the last piece of the split as they
  are and builds the variants only when both are non-empty: the address \<open>.a.b@x.com\<close>
  splits into an empty piece and the two non-empty pieces \<open>a\<close> and \<open>b\<close>, and the only
  candidate is the local part.
\<close>

theorem derive_candidates_leading_delimiter:
  "2 \<le> length (nonempty_parts (re_split is_delim (local_part ''.a.b@x.com''))) \<and>
   derive_candidates ''.a.b@x.com'' = [''.a.b''] \<and>
   ''a_b'' \<notin> set (derive_candidates ''.a.b@x.com'')"
  by code_simp

text \<open>
  Claim C2, amended. The part of the address before the first \<open>@\<close> is split at every
  delimiter \<open>.\<close>, \<open>-\<close>, \<open>_\<close>, \<open>+\<close>: there is one piece more than there are delimiters and
  no piece holds a delimiter. The unmodified local part is always a candidate. When the
  split has at least two pieces and both the first and the last piece are non-empty, the
  candidates are exactly the local part and the four variants first+last, first_last,
  first.last and the initial of first followed by last; otherwise the local part is the
  only candidate. For \<open>john.doe@x.com\<close> the candidates are \<open>jdoe\<close>, \<open>john.doe\<close>,
  \<open>john_doe\<close>, \<open>johndoe\<close>.
\<close>

theorem derive_candidates_variants:
  "local_part addr \<in> set (derive_candidates addr) \<and>
   (let parts = re_split is_delim (local_part addr); first = hd parts; last' = last parts
    in (2 \<le> length parts \<and> first \<noteq> [] \<and> last' \<noteq> [] \<longrightarrow>
          set (derive_candidates addr) =
            {local_part addr, first @ last', first @ ''_'' @ last', first @ ''.'' @ last',
             hd first # last'}) \<and>
       (\<not> (2 \<le> length parts \<and> first \<noteq> [] \<and> last' \<noteq> []) \<longrightarrow>
          set (derive_candidates addr) = {local_part addr}) \<and>
       length parts = Suc (length (filter is_delim (local_part addr))) \<and>
       list_all (list_all (\<lambda>c. \<not> is_delim c)) parts) \<and>
   derive_candidates ''john.doe@x.com'' = [''jdoe'', ''john.doe'', ''john_doe'', ''johndoe'']"
proof -
  have 1: "derive_candidates ''john.doe@x.com'' = [''jdoe'', ''john.doe'', ''john_doe'', ''johndoe'']"
    by code_simp
  have 2: "local_part addr \<in> cands addr"
    by (simp add: cands_def Let_def)
  have 3: "2 \<le> length (re_split is_delim (local_part addr)) \<and> hd (re_split is_delim (local_part addr)) \<noteq> [] \<and> last (re_split is_delim (local_part addr)) \<noteq> [] \<Longrightarrow>
     cands addr = {local_part addr, hd (re_split is_delim (local_part addr)) @ last (re_split is_delim (local_part addr)),
       hd (re_split is_delim (local_part addr)) @ ''_'' @ last (re_split is_delim (local_part addr)),
       hd (re_split is_delim (local_part addr)) @ ''.'' @ last (re_split is_delim (local_part addr)),
       hd (hd (re_split is_delim (local_part addr))) # last (re_split is_delim (local_part addr))}"
    by (simp add: cands_def Let_def variants_def)
  have 4: "\<not> (2 \<le> length (re_split is_delim (local_part addr)) \<and> hd (re_split is_delim (local_part addr)) \<noteq> [] \<and> last (re_split is_delim (local_part addr)) \<noteq> []) \<Longrightarrow>
     cands addr = {local_part addr}"
    by (simp add: cands_def Let_def) blast
  have 5: "length (re_split is_delim (local_part addr))
      = Suc (length (filter is_delim (local_part addr)))"
    by (simp add: re_split_def re_split_from_length)
  have 6: "list_all (list_all (\<lambda>c. \<not> is_delim c)) (re_split is_delim (local_part addr))"
    by (simp add: re_split_def re_split_from_no_delim)
  show ?thesis unfolding set_derive_candidates Let_def using 1 2 3 4 5 6 by blast
qed

theorem derive_candidates_variants_witness:
  "local_part ''john.doe@x.com'' = ''john.doe'' \<and>
   re_split is_delim ''john.doe'' = [''john'', ''doe''] \<and>
   set (derive_candidates ''john.doe@x.com'') =
     {''john.doe'', ''johndoe'', ''john_doe'', ''john.doe'', ''jdoe''}"
proof -
  have l: "local_part ''john.doe@x.com'' = ''john.doe''" by code_simp
  have p: "re_split is_delim ''john.doe'' = [''john'', ''doe'']" by code_simp
  have h: "2 \<le> length [''john'', ''doe''] \<and> hd [''john'', ''doe''] \<noteq> [] \<and>
           last [''john'', ''doe''] \<noteq> []" by simp
  have "set (derive_candidates ''john.doe@x.com'') =
     {''john.doe'', hd [''john'', ''doe''] @ last [''john'', ''doe''],
      hd [''john'', ''doe''] @ ''_'' @ last [''john'', ''doe''],
      hd [''john'', ''doe''] @ ''.'' @ last [''john'', ''doe''],
      hd (hd [''john'', ''doe'']) # last [''john'', ''doe'']}"
    using derive_candidates_variants [of "''john.doe@x.com''"] h unfolding l p Let_def by blast
  then show ?thesis using l p by simp
qed

text \<open>
  Claim C9. For every email address the list of derived candidates has no duplicates, is
  sorted in the lexicographic order of the strings, and has at most 8 entries.
\<close>

theorem derive_candidates_sorted_distinct_bounded:
  "distinct (derive_candidates addr) \<and> sorted (derive_candidates addr)
   \<and> length (derive_candidates addr) \<le> 8"
  by (simp add: derive_candidates_def)

theorem derive_candidates_sorted_distinct_bounded_witness:
  "distinct (derive_candidates ''a.b-c@x.org'') \<and> sorted (derive_candidates ''a.b-c@x.org'')
   \<and> length (derive_candidates ''a.b-c@x.org'') \<le> 8
   \<and> derive_candidates ''a.b-c@x.org'' = [''a.b-c'', ''a.c'', ''a_c'', ''ac'']"
proof -
  have "derive_candidates ''a.b-c@x.org'' = [''a.b-c'', ''a.c'', ''a_c'', ''ac'']" by code_simp
  then show ?thesis
    using derive_candidates_sorted_distinct_bounded [of "''a.b-c@x.org''"] by simp
qed

text \<open>
  Claim C10. For every email address the set of candidates has at most 5 elements, the
  local part and at most four variants, so the cut to 8 entries removes nothing: the
  derived list is the whole sorted set.
\<close>

theorem derive_candidates_at_most_five:
  "card (cands addr) \<le> 5 \<and> length (derive_candidates addr) \<le> 5
   \<and> derive_candidates addr = sorted_list_of_set (cands addr)
   \<and> set (derive_candidates addr) = cands addr"
proof -
  have "length (derive_candidates addr) \<le> 5"
    using length_sorted_cands [of addr] by (simp only: derive_candidates_untruncated)
  then show ?thesis
    using card_cands [of addr] derive_candidates_untruncated [of addr]
      set_derive_candidates [of addr] by blast
qed

theorem derive_candidates_at_most_five_witness:
  "length (derive_candidates ''mary-ann_smith@x.org'') \<le> 5 \<and>
   derive_candidates ''mary-ann_smith@x.org'' =
     [''mary-ann_smith'', ''mary.smith'', ''mary_smith'', ''marysmith'', ''msmith'']"
proof -
  have "derive_candidates ''mary-ann_smith@x.org'' =
     [''mary-ann_smith'', ''mary.smith'', ''mary_smith'', ''marysmith'', ''msmith'']"
    by code_simp
  then show ?thesis
    using derive_candidates_at_most_five [of "''mary-ann_smith@x.org''"] by simp
qed

section \<open>The worker\<close>






section \<open>The stack_overflow probe\<close>




section \<open>The scan of one identifier\<close>







section \<open>The gravatar key\<close>

text \<open>
  Claim C8. The key in both gravatar addresses is the digest of the UTF-8 bytes of the
  email address, stripped and lowercased. Stripping removes the surrounding whitespace:
  the address is the stripped text between two runs of whitespace, and the stripped text
  neither starts nor ends with whitespace. The key of \<open>" Test@Example.com "\<close> is the
  digest of \<open>"test@example.com"\<close>, whose bytes are its ASCII codes.
\<close>

theorem gravatar_hash_trim_lower:
  "map_of (fst (gravatar_lookup md5_hexdigest session e w)) ''gravatar_json_url'' =
     Some (PStr (''https://www.gravatar.com/'' @ md5_hexdigest (encode (lower (strip e))) @ ''.json''))
   \<and> map_of (fst (gravatar_lookup md5_hexdigest session e w)) ''gravatar_img_url'' =
     Some (PStr (''https://www.gravatar.com/avatar/'' @ md5_hexdigest (encode (lower (strip e))) @ ''?d=404''))
   \<and> (\<exists>a b. e = a @ strip e @ b \<and> list_all isspace_chr a \<and> list_all isspace_chr b
         \<and> (strip e = [] \<or> (\<not> isspace_chr (hd (strip e)) \<and> \<not> isspace_chr (last (strip e)))))
   \<and> gravatar_hash md5_hexdigest '' Test@Example.com '' = md5_hexdigest (encode ''test@example.com'')
   \<and> gravatar_hash md5_hexdigest '' Test@Example.com '' = gravatar_hash md5_hexdigest ''test@example.com''
   \<and> encode ''test@example.com'' =
       [0x74, 0x65, 0x73, 0x74, 0x40, 0x65, 0x78, 0x61, 0x6D, 0x70, 0x6C, 0x65, 0x2E, 0x63, 0x6F, 0x6D]"
proof -
  have 0: "encode ''test@example.com'' =
       [0x74, 0x65, 0x73, 0x74, 0x40, 0x65, 0x78, 0x61, 0x6D, 0x70, 0x6C, 0x65, 0x2E, 0x63, 0x6F, 0x6D]"
    by code_simp
  have 1: "lower (strip '' Test@Example.com '') = ''test@example.com''" by code_simp
  have 2: "lower (strip ''test@example.com'') = ''test@example.com''" by code_simp
  have 3: "map_of (fst (gravatar_lookup md5_hexdigest session e w)) ''gravatar_json_url'' =
     Some (PStr (''https://www.gravatar.com/'' @ md5_hexdigest (encode (lower (strip e))) @ ''.json''))"
    by (simp add: gravatar_lookup_def gravatar_hash_def session_get_def Let_def
        update_conv' split: sum.splits option.splits)
  have 4: "map_of (fst (gravatar_lookup md5_hexdigest session e w)) ''gravatar_img_url'' =
     Some (PStr (''https://www.gravatar.com/avatar/'' @ md5_hexdigest (encode (lower (strip e))) @ ''?d=404''))"
    by (simp add: gravatar_lookup_def gravatar_hash_def session_get_def Let_def
        update_conv' split: sum.splits option.splits)
  show ?thesis using 0 3 4 strip_decomposition [of e] by (simp add: gravatar_hash_def 1 2)
qed

theorem gravatar_hash_trim_lower_witness:
  "(\<exists>a b. '' Test@Example.com '' = a @ strip '' Test@Example.com '' @ b
        \<and> list_all isspace_chr a \<and> list_all isspace_chr b) \<and>
   gravatar_hash demo_digest '' Test@Example.com '' = demo_digest (encode ''test@example.com'')"
  using gravatar_hash_trim_lower [of demo_digest demo_session "'' Test@Example.com ''" idle]
  by blast

end
